theory Spec2Isabelle
  imports Main
begin

section \<open>Python string operations used by the monitor\<close>

text \<open>
  A string is a list of \<open>char\<close>, one per code point, so the strings of the model are
  the Python strings whose code points lie below 256 (Latin-1). On that range the
  functions below are \<open>str.lower\<close>, \<open>str.strip\<close>, \<open>str.split(',')\<close> and the operator
  \<open>in\<close> of Python 3: \<open>str.lower\<close> maps \<open>A\<close>..\<open>Z\<close> and the 30 capital letters from
  \<open>0xC0\<close> to \<open>0xDE\<close> (\<open>0xD7\<close>, the multiplication sign, is none) to the letter 32
  places further and leaves every other code point alone; the whitespace
  \<open>str.strip\<close> removes is that of \<open>str.isspace\<close>: 9 to 13, 28 to 32, \<open>0x85\<close> and
  \<open>0xA0\<close>.
\<close>

definition upper_chars :: string where
  "upper_chars =
     ''ABCDEFGHIJKLMNOPQRSTUVWXYZ''
     @ [CHR 0xC0, CHR 0xC1, CHR 0xC2, CHR 0xC3, CHR 0xC4, CHR 0xC5, CHR 0xC6, CHR 0xC7,
        CHR 0xC8, CHR 0xC9, CHR 0xCA, CHR 0xCB, CHR 0xCC, CHR 0xCD, CHR 0xCE, CHR 0xCF,
        CHR 0xD0, CHR 0xD1, CHR 0xD2, CHR 0xD3, CHR 0xD4, CHR 0xD5, CHR 0xD6,
        CHR 0xD8, CHR 0xD9, CHR 0xDA, CHR 0xDB, CHR 0xDC, CHR 0xDD, CHR 0xDE]"

definition lower_chars :: string where
  "lower_chars =
     ''abcdefghijklmnopqrstuvwxyz''
     @ [CHR 0xE0, CHR 0xE1, CHR 0xE2, CHR 0xE3, CHR 0xE4, CHR 0xE5, CHR 0xE6, CHR 0xE7,
        CHR 0xE8, CHR 0xE9, CHR 0xEA, CHR 0xEB, CHR 0xEC, CHR 0xED, CHR 0xEE, CHR 0xEF,
        CHR 0xF0, CHR 0xF1, CHR 0xF2, CHR 0xF3, CHR 0xF4, CHR 0xF5, CHR 0xF6,
        CHR 0xF8, CHR 0xF9, CHR 0xFA, CHR 0xFB, CHR 0xFC, CHR 0xFD, CHR 0xFE]"

definition lower_char :: "char \<Rightarrow> char" where
  "lower_char c =
     (case map_of (zip upper_chars lower_chars) c of
        Some d \<Rightarrow> d
      | None \<Rightarrow> c)"

definition py_lower :: "string \<Rightarrow> string" where
  "py_lower s = map lower_char s"

definition is_space :: "char \<Rightarrow> bool" where
  "is_space c \<longleftrightarrow>
     c \<in> set [CHR 0x09, CHR 0x0A, CHR 0x0B, CHR 0x0C, CHR 0x0D,
              CHR 0x1C, CHR 0x1D, CHR 0x1E, CHR 0x1F, CHR '' '', CHR 0x85, CHR 0xA0]"

definition py_strip :: "string \<Rightarrow> string" where
  "py_strip s = rev (dropWhile is_space (rev (dropWhile is_space s)))"

text \<open>\<open>s.split(c)\<close>: one field per separator plus one; never the empty list.\<close>

fun py_split :: "char \<Rightarrow> string \<Rightarrow> string list" where
  "py_split c [] = [[]]"
| "py_split c (x # xs) =
     (if x = c then [] # py_split c xs
      else (case py_split c xs of
              [] \<Rightarrow> [[x]]
            | w # ws \<Rightarrow> (x # w) # ws))"

text \<open>\<open>a in b\<close> on strings: \<open>a\<close> occurs in \<open>b\<close> as a contiguous block.\<close>

fun starts_with :: "string \<Rightarrow> string \<Rightarrow> bool" where
  "starts_with [] ys = True"
| "starts_with (x # xs) [] = False"
| "starts_with (x # xs) (y # ys) = (x = y \<and> starts_with xs ys)"

fun py_in :: "string \<Rightarrow> string \<Rightarrow> bool" where
  "py_in a [] = (a = [])"
| "py_in a (y # ys) = (starts_with a (y # ys) \<or> py_in a ys)"

section \<open>Liveness probe\<close>

text \<open>
  One process as \<open>psutil.process_iter(['pid', 'name'])\<close> yields it. \<open>psutil\<close> reads the
  two attributes before it yields the process and keeps them in the dictionary
  \<open>proc.info\<close>. A process that has gone by then is not yielded at all
  (\<open>NoSuchProcess\<close> is caught inside \<open>process_iter\<close>); a name that may not be read
  (\<open>AccessDenied\<close>, \<open>ZombieProcess\<close>) is stored as \<open>None\<close>. So the body of the probes'
  \<open>try\<close> only reads a dictionary: none of the three exceptions its \<open>except\<close> clause
  names is raised there, and \<open>proc.info['name'].lower()\<close> on the name \<open>None\<close> raises
  \<open>AttributeError\<close>, which that clause does not catch.
\<close>

datatype proc = Proc (proc_pid: nat) (proc_name: "string option")

text \<open>A process is enumerable when its name could be read.\<close>

fun enumerable :: "proc \<Rightarrow> bool" where
  "enumerable (Proc p n) = (n \<noteq> None)"

text \<open>The exceptions that leave a function of the model, with the text of \<open>str(e)\<close>.\<close>

datatype error = AttributeError

fun error_message :: "error \<Rightarrow> string" where
  "error_message AttributeError =
     [CHR 0x27] @ ''NoneType'' @ [CHR 0x27] @ '' object has no attribute ''
       @ [CHR 0x27] @ ''lower'' @ [CHR 0x27]"

subsection \<open>\<open>monitor_process.is_process_running\<close> (substring mode)\<close>

text \<open>
  The inner loop over \<open>process_list\<close>: the first entry that, stripped and
  lower-cased, occurs in the lower-cased process name. The entry found is the one
  the log line names.
\<close>

fun match_entry :: "string list \<Rightarrow> string \<Rightarrow> string option" where
  "match_entry [] nm = None"
| "match_entry (e # es) nm =
     (let process_name = py_strip e in
      if py_in (py_lower process_name) (py_lower nm) then Some process_name
      else match_entry es nm)"

text \<open>
  The outer loop over the process table. The first match returns at once, with the
  entry and the pid that are logged. At a process whose name is \<open>None\<close> the first
  comparison of the inner loop raises \<open>AttributeError\<close>, which leaves the function;
  with no entry to compare there is no comparison.
\<close>

fun scan_processes :: "string list \<Rightarrow> proc list \<Rightarrow> error + (string \<times> nat) option" where
  "scan_processes process_list [] = Inr None"
| "scan_processes process_list (Proc p None # rest) =
     (if process_list = [] then scan_processes process_list rest else Inl AttributeError)"
| "scan_processes process_list (Proc p (Some nm) # rest) =
     (case match_entry process_list nm of
        Some process_name \<Rightarrow> Inr (Some (process_name, p))
      | None \<Rightarrow> scan_processes process_list rest)"

definition is_process_running_log ::
  "string \<Rightarrow> proc list \<Rightarrow> error + (string \<times> nat) option" where
  "is_process_running_log process_names procs =
     scan_processes (py_split CHR '','' process_names) procs"

definition is_process_running :: "string \<Rightarrow> proc list \<Rightarrow> error + bool" where
  "is_process_running process_names procs =
     (case is_process_running_log process_names procs of
        Inl err \<Rightarrow> Inl err
      | Inr found \<Rightarrow> Inr (found \<noteq> None))"

text \<open>The watch-list the substring probe compares against: split at commas, stripped.\<close>

definition watch_list :: "string \<Rightarrow> string list" where
  "watch_list process_names = map py_strip (py_split CHR '','' process_names)"

subsection \<open>\<open>vast_auto_shutoff.is_process_running\<close> (exact mode)\<close>

text \<open>
  Takes the list of names as it is (the caller splits at commas and does not
  strip): \<open>any(p.lower() == process_name for p in process_names)\<close>. The name is
  lower-cased before the list is looked at, so a name \<open>None\<close> raises whatever the list.
\<close>

fun vas_is_process_running :: "string list \<Rightarrow> proc list \<Rightarrow> error + bool" where
  "vas_is_process_running process_names [] = Inr False"
| "vas_is_process_running process_names (Proc p None # rest) = Inl AttributeError"
| "vas_is_process_running process_names (Proc p (Some nm) # rest) =
     (if list_ex (\<lambda>e. py_lower e = py_lower nm) process_names then Inr True
      else vas_is_process_running process_names rest)"

text \<open>
  \<open>str(n)\<close> for an integer, and \<open>int(x)\<close> for a float given as a whole number of
  microseconds (truncation toward zero).
\<close>

definition digit_char :: "nat \<Rightarrow> char" where
  "digit_char d = ''0123456789'' ! d"

fun str_nat :: "nat \<Rightarrow> string" where
  "str_nat n = (if n < 10 then [digit_char n] else str_nat (n div 10) @ [digit_char (n mod 10)])"

declare str_nat.simps [simp del]

definition str_int :: "int \<Rightarrow> string" where
  "str_int i = (if i < 0 then CHR ''-'' # str_nat (nat (- i)) else str_nat (nat i))"

definition trunc_seconds :: "int \<Rightarrow> int" where
  "trunc_seconds micro = (if 0 \<le> micro then micro div 1000000 else - ((- micro) div 1000000))"

text \<open>
  \<open>int(s)\<close> for a string, as in Python 3.11; \<open>None\<close> is the \<open>ValueError\<close>. The
  whitespace dropped at both ends is not that of \<open>str.strip\<close>: the code points 28 to
  31 are no whitespace for \<open>int\<close>. One sign is allowed, then decimal digits (below
  256 these are \<open>0\<close>..\<open>9\<close>), where single underscores may stand between digits.
  A string with more than 4300 digits is refused, leading zeros counted and
  underscores not (\<open>sys.int_info.default_max_str_digits\<close>).
\<close>

definition is_int_space :: "char \<Rightarrow> bool" where
  "is_int_space c \<longleftrightarrow>
     c \<in> set [CHR 0x09, CHR 0x0A, CHR 0x0B, CHR 0x0C, CHR 0x0D, CHR '' '',
              CHR 0x85, CHR 0xA0]"

definition int_strip :: "string \<Rightarrow> string" where
  "int_strip s = rev (dropWhile is_int_space (rev (dropWhile is_int_space s)))"

definition max_str_digits :: nat where
  "max_str_digits = 4300"

definition is_digit :: "char \<Rightarrow> bool" where
  "is_digit c \<longleftrightarrow> c \<in> set ''0123456789''"

definition digit_val :: "char \<Rightarrow> nat" where
  "digit_val c = (case map_of (zip ''0123456789'' [0 ..< 10]) c of Some d \<Rightarrow> d | None \<Rightarrow> 0)"

fun parse_digits :: "nat \<Rightarrow> string \<Rightarrow> nat option" where
  "parse_digits acc [] = Some acc"
| "parse_digits acc [c] = (if is_digit c then Some (10 * acc + digit_val c) else None)"
| "parse_digits acc (c # d # cs) =
     (if is_digit c then parse_digits (10 * acc + digit_val c) (d # cs)
      else if c = CHR ''_'' \<and> is_digit d then parse_digits (10 * acc + digit_val d) cs
      else None)"

definition parse_number :: "string \<Rightarrow> nat option" where
  "parse_number s =
     (case s of
        [] \<Rightarrow> None
      | c # cs \<Rightarrow> if is_digit c then parse_digits (digit_val c) cs else None)"

definition py_int :: "string \<Rightarrow> int option" where
  "py_int s =
     (if max_str_digits < length (filter is_digit s) then None
      else
        (case int_strip s of
           [] \<Rightarrow> None
         | c # cs \<Rightarrow>
             if c = CHR ''-'' then map_option (\<lambda>n. - int n) (parse_number cs)
             else if c = CHR ''+'' then map_option int (parse_number cs)
             else map_option int (parse_number (c # cs))))"

section \<open>Control-plane client\<close>

text \<open>
  A field of a JSON object as \<open>dict.get\<close> sees it: the key is absent, the value
  is \<open>null\<close>, or there is a value. An instance carries the three fields the
  scripts read.
\<close>

datatype 'a field = Missing | Null | Val 'a

record inst =
  inst_id :: "int field"
  inst_instance_id :: "int field"
  inst_label :: "string field"

text \<open>
  What the GET request gives: an exception (transport, HTTP status, JSON), a body
  without the key \<open>instances\<close>, or the list under that key.
\<close>

datatype api_response = Request_Failed | No_Instances_Key | Instances "inst list"

subsection \<open>\<open>monitor_process.get_instances\<close>\<close>

definition get_instances :: "api_response \<Rightarrow> string \<Rightarrow> inst list" where
  "get_instances response identifier =
     (case response of
        Request_Failed \<Rightarrow> []
      | No_Instances_Key \<Rightarrow> []
      | Instances instances \<Rightarrow>
          if identifier \<noteq> [] then
            (case py_int identifier of
               Some instance_id \<Rightarrow> filter (\<lambda>i. inst_id i = Val instance_id) instances
             | None \<Rightarrow> filter (\<lambda>i. inst_label i = Val identifier) instances)
          else instances)"

text \<open>
  The deletion loops of \<open>monitor_process.main\<close> take \<open>instance.get('id')\<close> and
  skip an instance whose id is absent, \<open>null\<close> or \<open>0\<close> (\<open>if instance_id:\<close>).
\<close>

fun instance_ids :: "inst list \<Rightarrow> int list" where
  "instance_ids [] = []"
| "instance_ids (i # rest) =
     (case inst_id i of
        Val n \<Rightarrow> if n \<noteq> 0 then n # instance_ids rest else instance_ids rest
      | _ \<Rightarrow> instance_ids rest)"

subsection \<open>\<open>vast_auto_shutoff.get_instances\<close>\<close>

text \<open>
  The filter \<open>instance_label.lower() in i.get('label', '').lower()\<close>: an absent
  label counts as the empty string, a \<open>null\<close> label raises (\<open>None\<close> here).
\<close>

definition label_text :: "inst \<Rightarrow> string" where
  "label_text i = (case inst_label i of Val l \<Rightarrow> l | _ \<Rightarrow> [])"

definition label_filter :: "string \<Rightarrow> inst list \<Rightarrow> inst list option" where
  "label_filter instance_label instances =
     (if list_ex (\<lambda>i. inst_label i = Null) instances then None
      else Some (filter (\<lambda>i. py_in (py_lower instance_label) (py_lower (label_text i))) instances))"

text \<open>The REST part of the function (the fallback after the SDK).\<close>

definition vas_get_instances_rest :: "api_response \<Rightarrow> string \<Rightarrow> inst list" where
  "vas_get_instances_rest response instance_label =
     (case response of
        Request_Failed \<Rightarrow> []
      | No_Instances_Key \<Rightarrow> []
      | Instances instances \<Rightarrow>
          if instance_label \<noteq> [] then
            (case label_filter instance_label instances of
               Some found \<Rightarrow> found
             | None \<Rightarrow> [])
          else instances)"

text \<open>
  The whole function. \<open>sdk\<close> is \<open>Some instances\<close> when the SDK is installed, a
  client was built and \<open>show_instances\<close> returned; \<open>None\<close> otherwise. An exception
  in the SDK branch falls through to the REST part.
\<close>

definition vas_get_instances :: "inst list option \<Rightarrow> api_response \<Rightarrow> string \<Rightarrow> inst list" where
  "vas_get_instances sdk response instance_label =
     (case sdk of
        Some instances \<Rightarrow>
          if instance_label \<noteq> [] then
            (case label_filter instance_label instances of
               Some found \<Rightarrow> found
             | None \<Rightarrow> vas_get_instances_rest response instance_label)
          else instances
      | None \<Rightarrow> vas_get_instances_rest response instance_label)"

text \<open>\<open>instance.get('id') or instance.get('instance_id')\<close>, kept when truthy.\<close>

definition truthy :: "int field \<Rightarrow> bool" where
  "truthy f = (case f of Val n \<Rightarrow> n \<noteq> 0 | _ \<Rightarrow> False)"

fun vas_instance_ids :: "inst list \<Rightarrow> int list" where
  "vas_instance_ids [] = []"
| "vas_instance_ids (i # rest) =
     (case (if truthy (inst_id i) then inst_id i else inst_instance_id i) of
        Val n \<Rightarrow> if n \<noteq> 0 then n # vas_instance_ids rest else vas_instance_ids rest
      | _ \<Rightarrow> vas_instance_ids rest)"

section \<open>Command channel\<close>

datatype command = Stop | Delete_Now | Pause | Resume

text \<open>
  The directory \<open>commands\<close> is the list of its file names, in the order
  \<open>glob\<close> lists them. \<open>glob.glob('commands/<prefix>*.json')\<close> hands the names to
  \<open>fnmatch.filter\<close>, which compares \<open>os.path.normcase\<close> of each name with the pattern:
  it keeps the names that, so normalised, begin with the prefix and end in
  \<open>.json\<close>, the star standing for any characters, none included. \<open>normcase\<close> is the
  identity on POSIX and lower-cases on Windows; it belongs to the platform and is a
  parameter here. The four patterns are in lower case, \<open>normcase\<close> leaves them as
  they are.
\<close>

definition matches_pattern :: "(string \<Rightarrow> string) \<Rightarrow> string \<Rightarrow> string \<Rightarrow> bool" where
  "matches_pattern normcase prefix f \<longleftrightarrow>
     length prefix + 5 \<le> length (normcase f) \<and> starts_with prefix (normcase f)
       \<and> starts_with (rev ''.json'') (rev (normcase f))"

definition glob :: "(string \<Rightarrow> string) \<Rightarrow> string \<Rightarrow> string list \<Rightarrow> string list" where
  "glob normcase prefix dir = filter (matches_pattern normcase prefix) dir"

text \<open>
  \<open>for file in files: os.remove(file)\<close>. \<open>fails\<close> tells for which files
  \<open>os.remove\<close> raises (permission, a directory, ...); removing a file that is no
  longer there raises as well. The loop stops at the first exception, the files
  removed before it stay removed. The flag says whether the loop ran to its end.
\<close>

fun remove_files :: "(string \<Rightarrow> bool) \<Rightarrow> string list \<Rightarrow> string list \<Rightarrow> bool \<times> string list" where
  "remove_files fails [] dir = (True, dir)"
| "remove_files fails (f # fs) dir =
     (if fails f then (False, dir)
      else if f \<in> set dir then remove_files fails fs (removeAll f dir)
      else (False, dir))"

text \<open>
  One of the four blocks of \<open>check_for_commands\<close>: glob; when files are found, remove
  them and return the command; when a removal raises, log the error and go on to
  the next block.
\<close>

datatype attempt = Returned | Not_Found | Remove_Error

definition try_command ::
  "(string \<Rightarrow> string) \<Rightarrow> (string \<Rightarrow> bool) \<Rightarrow> string \<Rightarrow> string list
     \<Rightarrow> attempt \<times> string list" where
  "try_command normcase fails prefix dir =
     (let files = glob normcase prefix dir in
      if files \<noteq> [] then
        (case remove_files fails files dir of
           (True, dir') \<Rightarrow> (Returned, dir')
         | (False, dir') \<Rightarrow> (Remove_Error, dir'))
      else (Not_Found, dir))"

definition logged :: "attempt \<Rightarrow> command \<Rightarrow> command list" where
  "logged a c = (if a = Remove_Error then [c] else [])"

text \<open>
  The result is the command returned (\<open>None\<close> for Python's \<open>None\<close>), the directory
  afterwards, and the commands for which a removal error was logged.
\<close>

definition check_for_commands ::
  "(string \<Rightarrow> string) \<Rightarrow> (string \<Rightarrow> bool) \<Rightarrow> string list
     \<Rightarrow> command option \<times> string list \<times> command list" where
  "check_for_commands normcase fails dir =
     (case try_command normcase fails ''stop_'' dir of
        (Returned, d1) \<Rightarrow> (Some Stop, d1, [])
      | (a1, d1) \<Rightarrow>
     (case try_command normcase fails ''delete_now_'' d1 of
        (Returned, d2) \<Rightarrow> (Some Delete_Now, d2, logged a1 Stop)
      | (a2, d2) \<Rightarrow>
     (case try_command normcase fails ''pause_'' d2 of
        (Returned, d3) \<Rightarrow> (Some Pause, d3, logged a1 Stop @ logged a2 Delete_Now)
      | (a3, d3) \<Rightarrow>
     (case try_command normcase fails ''resume_'' d3 of
        (Returned, d4) \<Rightarrow>
          (Some Resume, d4, logged a1 Stop @ logged a2 Delete_Now @ logged a3 Pause)
      | (a4, d4) \<Rightarrow>
          (None, d4, logged a1 Stop @ logged a2 Delete_Now @ logged a3 Pause
                       @ logged a4 Resume)))))"

text \<open>The pattern of each command and its rank in the order of the four blocks.\<close>

fun pattern_prefix :: "command \<Rightarrow> string" where
  "pattern_prefix Stop = ''stop_''"
| "pattern_prefix Delete_Now = ''delete_now_''"
| "pattern_prefix Pause = ''pause_''"
| "pattern_prefix Resume = ''resume_''"

fun priority :: "command \<Rightarrow> nat" where
  "priority Stop = 0"
| "priority Delete_Now = 1"
| "priority Pause = 2"
| "priority Resume = 3"

section \<open>Status publisher\<close>

text \<open>
  The directory \<open>status\<close> maps a file name to the JSON object written to it.
  \<open>update_status\<close> reads the clock twice (\<open>time.time()\<close>, here in microseconds
  since the epoch): once for the field \<open>timestamp\<close>, once for the file name.
  \<open>open(status_file, "w")\<close> creates the file or truncates the one that is there.
\<close>

record snapshot =
  snap_timestamp :: int
  snap_status :: string
  snap_process_running :: bool
  snap_time_remaining :: "string option"

definition status_file :: "int \<Rightarrow> string" where
  "status_file t = ''status_'' @ str_int (trunc_seconds t) @ ''.json''"

definition update_status ::
  "int \<Rightarrow> int \<Rightarrow> string \<Rightarrow> bool \<Rightarrow> string option \<Rightarrow> (string \<rightharpoonup> snapshot) \<Rightarrow> (string \<rightharpoonup> snapshot)" where
  "update_status t_data t_name status process_running time_remaining dir =
     dir (status_file t_name \<mapsto>
       \<lparr> snap_timestamp = t_data, snap_status = status,
         snap_process_running = process_running, snap_time_remaining = time_remaining \<rparr>)"

text \<open>A sequence of calls, each with its two clock readings and its arguments.\<close>

fun publish_all ::
  "(int \<times> int \<times> string \<times> bool \<times> string option) list \<Rightarrow> (string \<rightharpoonup> snapshot) \<Rightarrow> (string \<rightharpoonup> snapshot)" where
  "publish_all [] dir = dir"
| "publish_all ((t_data, t_name, status, running, remaining) # calls) dir =
     publish_all calls (update_status t_data t_name status running remaining dir)"

section \<open>The monitoring loop of \<open>monitor_process.main\<close>\<close>

text \<open>
  The arguments of a run. \<open>timeout\<close> is \<open>timedelta(minutes=timeout_minutes)\<close>, a whole
  number of microseconds, as are all clock readings (\<open>datetime.now()\<close>).
\<close>

record config =
  processes_to_monitor :: string
  timeout :: int
  api_key :: string
  instance_identifier :: string

text \<open>The loop variables, and the directory \<open>commands\<close> the loop reads and empties.\<close>

record state =
  process_running :: bool
  last_seen_running :: int
  paused :: bool
  command_files :: "string list"

text \<open>
  What the outside world supplies during one pass of the loop: the command files
  written since the last pass, \<open>os.path.normcase\<close>, the files \<open>os.remove\<close> fails on,
  the process table,
  the clock at the three places that read it (on a change of the probe, lines 266
  and 270; for \<open>elapsed\<close>, line 275; for the reset of the timer, lines 297 and 301),
  and the answers of the remote API to the requests of the \<open>delete_now\<close> command and of
  the timeout.
\<close>

record env =
  new_files :: "string list"
  normcase :: "string \<Rightarrow> string"
  remove_fails :: "string \<Rightarrow> bool"
  procs :: "proc list"
  now_edge :: int
  now_check :: int
  now_reset :: int
  response_delete_now :: api_response
  delete_ok_delete_now :: "int \<Rightarrow> bool"
  response_timeout :: api_response
  delete_ok_timeout :: "int \<Rightarrow> bool"

text \<open>
  What one pass does to the outside, in order: calls of \<open>update_status\<close> with their
  three arguments, calls of \<open>get_instances\<close> and \<open>delete_instance\<close> tagged with the place
  of the call, and \<open>time.sleep\<close> with its seconds.
\<close>

datatype call_site = On_Delete_Now | On_Timeout

datatype event =
    Update_Status string bool "string option"
  | Get_Instances call_site
  | Delete_Instance call_site int
  | Sleep nat

text \<open>
  How a pass ends: the loop goes on; \<open>sys.exit(0)\<close> after a stop command; \<open>break\<close>
  after a successful deletion, after which \<open>main\<close> returns; or an exception that
  \<open>except Exception\<close> (lines 324 to 327) catches, after which \<open>main\<close> returns as well.
\<close>

datatype outcome = Continue state | Exit_Stop state | Break_Deleted state | Exit_Error state

fun exit_code :: "outcome \<Rightarrow> nat option" where
  "exit_code (Continue s) = None"
| "exit_code (Exit_Stop s) = Some 0"
| "exit_code (Break_Deleted s) = Some 0"
| "exit_code (Exit_Error s) = Some 0"

definition CHECK_INTERVAL :: nat where
  "CHECK_INTERVAL = 5"

definition COMMAND_CHECK_INTERVAL :: nat where
  "COMMAND_CHECK_INTERVAL = 1"

definition one_minute :: int where
  "one_minute = 60000000"

text \<open>The text of \<open>time_remaining\<close> (lines 304 to 310), from \<open>remaining\<close> in microseconds.\<close>

definition format_remaining :: "int \<Rightarrow> string" where
  "format_remaining remaining =
     (let total = trunc_seconds remaining;
          minutes0 = total div 60;
          seconds = total mod 60;
          hours = minutes0 div 60;
          minutes = minutes0 mod 60
      in if hours > 0
         then str_int hours @ ''h '' @ str_int minutes @ ''m '' @ str_int seconds @ ''s''
         else str_int minutes @ ''m '' @ str_int seconds @ ''s'')"

text \<open>
  Lines 227 to 251: the command of this pass and what is done with it. The result
  is \<open>None\<close> when \<open>sys.exit(0)\<close> was called.
\<close>

definition handle_command ::
  "config \<Rightarrow> env \<Rightarrow> state \<Rightarrow> command option \<Rightarrow> state option \<times> event list" where
  "handle_command cfg e s command =
     (case command of
        None \<Rightarrow> (Some s, [])
      | Some Stop \<Rightarrow> (None, [Update_Status ''Monitoring Stopped'' (process_running s) None])
      | Some Pause \<Rightarrow>
          (Some (s\<lparr>paused := True\<rparr>),
           [Update_Status ''Monitoring Paused'' (process_running s) None])
      | Some Resume \<Rightarrow>
          (Some (s\<lparr>paused := False\<rparr>),
           [Update_Status ''Monitoring Resumed'' (process_running s) None])
      | Some Delete_Now \<Rightarrow>
          (let instances = get_instances (response_delete_now e) (instance_identifier cfg)
           in (Some s,
               Get_Instances On_Delete_Now
                 # map (Delete_Instance On_Delete_Now) (instance_ids instances))))"

text \<open>Lines 303 to 313 and 319: the snapshot with the time remaining, then the sleep.\<close>

definition report_remaining :: "int \<Rightarrow> event list" where
  "report_remaining remaining =
     (let time_remaining = format_remaining remaining
      in [Update_Status (''Process Not Running - '' @ time_remaining @ '' until deletion'')
            False (Some time_remaining),
          Sleep CHECK_INTERVAL])"

text \<open>Lines 279 to 301: the timeout has been reached.\<close>

definition timeout_reached :: "config \<Rightarrow> env \<Rightarrow> state \<Rightarrow> int \<Rightarrow> outcome \<times> event list" where
  "timeout_reached cfg e s remaining =
     (let instances = get_instances (response_timeout e) (instance_identifier cfg)
      in if instances \<noteq> [] then
           (let ids = instance_ids instances;
                deletion_successful = list_ex (delete_ok_timeout e) ids;
                calls = Get_Instances On_Timeout # map (Delete_Instance On_Timeout) ids
            in if deletion_successful then
                 (Break_Deleted s,
                  calls @ [Update_Status ''Instances Deleted, Monitoring Stopped'' False None])
               else
                 (Continue (s\<lparr>last_seen_running := now_reset e\<rparr>),
                  calls @ report_remaining remaining))
         else
           (Continue (s\<lparr>last_seen_running := now_reset e - timeout cfg + one_minute\<rparr>),
            Get_Instances On_Timeout # report_remaining remaining))"

text \<open>
  Lines 258 to 271: the probe, and the change of state when its answer differs from
  the one recorded. An exception of the probe leaves the loop.
\<close>

definition probe_change :: "config \<Rightarrow> env \<Rightarrow> state \<Rightarrow> error + state \<times> event list" where
  "probe_change cfg e s =
     (case is_process_running (processes_to_monitor cfg) (procs e) of
        Inl err \<Rightarrow> Inl err
      | Inr current_process_running \<Rightarrow>
          Inr (if current_process_running \<noteq> process_running s then
                 (s\<lparr>process_running := current_process_running,
                    last_seen_running := now_edge e\<rparr>,
                  [Update_Status
                     (if current_process_running then ''Process Running''
                      else ''Process Not Running'')
                     current_process_running None])
               else (s, [])))"

text \<open>
  Lines 258 to 319: the probe, then the timer. Lines 324 to 327: an exception ends
  the loop with a last snapshot that carries its text.
\<close>

definition monitor :: "config \<Rightarrow> env \<Rightarrow> state \<Rightarrow> outcome \<times> event list" where
  "monitor cfg e s =
     (case probe_change cfg e s of
        Inl err \<Rightarrow>
          (Exit_Error s,
           [Update_Status (''Error: '' @ error_message err) (process_running s) None])
      | Inr (s1, ev1) \<Rightarrow>
          if \<not> process_running s1 then
            (let elapsed = now_check e - last_seen_running s1;
                 remaining = timeout cfg - elapsed
             in if remaining \<le> 0 then
                  (case timeout_reached cfg e s1 remaining of (out, ev2) \<Rightarrow> (out, ev1 @ ev2))
                else (Continue s1, ev1 @ report_remaining remaining))
          else
            (Continue s1,
             ev1 @ [Update_Status ''Process Running'' True (Some ''N/A - Process Running''),
                    Sleep CHECK_INTERVAL]))"

text \<open>
  One pass of \<open>while True\<close> (lines 226 to 319). Writing a snapshot and writing the
  log are taken to succeed.
\<close>

definition tick :: "config \<Rightarrow> env \<Rightarrow> state \<Rightarrow> outcome \<times> event list" where
  "tick cfg e s =
     (case check_for_commands (normcase e) (remove_fails e) (command_files s @ new_files e) of
        (command, dir, errors) \<Rightarrow>
          (case handle_command cfg e (s\<lparr>command_files := dir\<rparr>) command of
             (None, ev) \<Rightarrow> (Exit_Stop (s\<lparr>command_files := dir\<rparr>), ev)
           | (Some s1, ev) \<Rightarrow>
               if paused s1 then (Continue s1, ev @ [Sleep COMMAND_CHECK_INTERVAL])
               else (case monitor cfg e s1 of (out, ev') \<Rightarrow> (out, ev @ ev'))))"

text \<open>
  The loop over a finite stretch of the outside world, one \<open>env\<close> per pass. It
  stops where the loop stops; when the stretch is used up the loop is still going.
\<close>

fun run :: "config \<Rightarrow> env list \<Rightarrow> state \<Rightarrow> outcome \<times> event list" where
  "run cfg [] s = (Continue s, [])"
| "run cfg (e # es) s =
     (case tick cfg e s of
        (Continue s', ev) \<Rightarrow> (case run cfg es s' of (out, ev') \<Rightarrow> (out, ev @ ev'))
      | (out, ev) \<Rightarrow> (out, ev))"

text \<open>Lines 217 to 219: the loop variables before the first pass.\<close>

definition initial_state :: "int \<Rightarrow> string list \<Rightarrow> state" where
  "initial_state start dir =
     \<lparr> process_running = False, last_seen_running = start, paused = False,
       command_files = dir \<rparr>"

text \<open>The timeout deletion was invoked: \<open>get_instances\<close> was called from line 282.\<close>

definition timeout_deletion_invoked :: "event list \<Rightarrow> bool" where
  "timeout_deletion_invoked evs \<longleftrightarrow> Get_Instances On_Timeout \<in> set evs"

text \<open>A call made by the timeout branch (lines 282 and 288).\<close>

fun timeout_call :: "event \<Rightarrow> bool" where
  "timeout_call (Get_Instances On_Timeout) = True"
| "timeout_call (Delete_Instance On_Timeout n) = True"
| "timeout_call ev = False"

section \<open>The loop of \<open>vast_auto_shutoff.main\<close>\<close>

text \<open>
  The standalone script has its own loop, without commands and status files.
  \<open>vas_timeout_minutes\<close> is a whole number of minutes (\<open>int(config.get(...))\<close>). The
  script compares floats, \<open>inactive_duration.total_seconds() / 60 >= timeout_minutes\<close>;
  the model compares the microseconds, which gives the same answer as long as the
  timeout is below some ten million minutes, where the rounding of the two divisions
  lies far below a microsecond.
\<close>

record vas_config =
  vas_process_names :: "string list"
  vas_timeout_minutes :: int
  vas_instance_label :: string

record vas_state =
  last_active_time :: int
  instances_terminated :: bool

record vas_env =
  vas_procs :: "proc list"
  vas_now_active :: int
  vas_now_inactive :: int
  vas_sdk :: "inst list option"
  vas_response :: api_response
  vas_delete_ok :: "int \<Rightarrow> bool"

datatype vas_event = Vas_Get_Instances | Vas_Delete_Instance int | Vas_Notification int

fun vas_delete_all :: "(int \<Rightarrow> bool) \<Rightarrow> int list \<Rightarrow> vas_event list" where
  "vas_delete_all ok [] = []"
| "vas_delete_all ok (n # ns) =
     (if ok n then [Vas_Delete_Instance n, Vas_Notification n] else [Vas_Delete_Instance n])
       @ vas_delete_all ok ns"

text \<open>One pass of \<open>while True\<close> (lines 221 to 261); \<open>Inl\<close> is an exception of the probe.\<close>

definition vas_tick ::
  "vas_config \<Rightarrow> vas_env \<Rightarrow> vas_state \<Rightarrow> error + vas_state \<times> vas_event list" where
  "vas_tick cfg e s =
     (case vas_is_process_running (vas_process_names cfg) (vas_procs e) of
        Inl err \<Rightarrow> Inl err
      | Inr True \<Rightarrow>
          Inr (s\<lparr>last_active_time := vas_now_active e, instances_terminated := False\<rparr>, [])
      | Inr False \<Rightarrow>
          (let inactive_duration = vas_now_inactive e - last_active_time s
           in if inactive_duration \<ge> vas_timeout_minutes cfg * one_minute
                 \<and> \<not> instances_terminated s then
                (let instances = vas_get_instances (vas_sdk e) (vas_response e)
                                   (vas_instance_label cfg)
                 in if instances = [] then Inr (s, [Vas_Get_Instances])
                    else Inr (s\<lparr>instances_terminated := True\<rparr>,
                              Vas_Get_Instances
                                # vas_delete_all (vas_delete_ok e) (vas_instance_ids instances)))
              else Inr (s, [])))"

text \<open>
  The loop of the standalone script over a finite stretch of passes. It has no exit
  of its own: it goes on after a deletion, and only an exception ends it (lines 268
  and 269), here with \<open>Inl\<close> of the state reached.
\<close>

fun vas_run ::
  "vas_config \<Rightarrow> vas_env list \<Rightarrow> vas_state \<Rightarrow> (vas_state + vas_state) \<times> vas_event list" where
  "vas_run cfg [] s = (Inr s, [])"
| "vas_run cfg (e # es) s =
     (case vas_tick cfg e s of
        Inl err \<Rightarrow> (Inl s, [])
      | Inr (s', ev) \<Rightarrow> (case vas_run cfg es s' of (r, ev') \<Rightarrow> (r, ev @ ev')))"

section \<open>Sample inputs\<close>

text \<open>
  A pass in which nothing happens outside: no command file, one unrelated process,
  all three clock readings equal to \<open>t\<close>, the remote API out of reach.
\<close>

definition sample_env :: "int \<Rightarrow> env" where
  "sample_env t =
     \<lparr> new_files = [], normcase = (\<lambda>f. f), remove_fails = (\<lambda>f. False),
       procs = [Proc 4 (Some ''explorer.exe'')],
       now_edge = t, now_check = t, now_reset = t,
       response_delete_now = Request_Failed, delete_ok_delete_now = (\<lambda>n. False),
       response_timeout = Request_Failed, delete_ok_timeout = (\<lambda>n. False) \<rparr>"

definition sample_config :: "string \<Rightarrow> int \<Rightarrow> config" where
  "sample_config names grace =
     \<lparr> processes_to_monitor = names, timeout = grace, api_key = ''key'',
       instance_identifier = ''XTTS'' \<rparr>"

definition sample_inst :: "int \<Rightarrow> string \<Rightarrow> inst" where
  "sample_inst n l = \<lparr> inst_id = Val n, inst_instance_id = Missing, inst_label = Val l \<rparr>"

text \<open>
  The standalone script with its default process names and a timeout of ten minutes;
  a pass of it in which no watched process runs, the SDK is not installed and the
  REST request lists one resource, whose deletion succeeds or fails as \<open>ok\<close> says.
\<close>

definition sample_vas_config :: vas_config where
  "sample_vas_config =
     \<lparr> vas_process_names = [''skyrimvr.exe'', ''skyrim.exe''], vas_timeout_minutes = 10,
       vas_instance_label = ''XTTS'' \<rparr>"

definition sample_vas_env :: "int \<Rightarrow> bool \<Rightarrow> vas_env" where
  "sample_vas_env t ok =
     \<lparr> vas_procs = [Proc 4 (Some ''explorer.exe'')], vas_now_active = t,
       vas_now_inactive = t, vas_sdk = None,
       vas_response = Instances [sample_inst 123 ''My XTTS box''],
       vas_delete_ok = (\<lambda>n. ok) \<rparr>"

section \<open>Properties of the string operations\<close>

lemma starts_with_iff: "starts_with a b \<longleftrightarrow> (\<exists>post. b = a @ post)"
  by (induction a b rule: starts_with.induct) auto

lemma py_in_iff: "py_in a b \<longleftrightarrow> (\<exists>pre post. b = pre @ a @ post)"
proof (induction b)
  case Nil
  then show ?case by simp
next
  case (Cons y ys)
  have "(\<exists>pre post. y # ys = pre @ a @ post) \<longleftrightarrow>
        (\<exists>post. y # ys = a @ post) \<or> (\<exists>pre post. ys = pre @ a @ post)"
  proof
    assume "\<exists>pre post. y # ys = pre @ a @ post"
    then obtain pre post where eq: "y # ys = pre @ a @ post" by blast
    show "(\<exists>post. y # ys = a @ post) \<or> (\<exists>pre post. ys = pre @ a @ post)"
    proof (cases pre)
      case Nil
      with eq show ?thesis by auto
    next
      case (Cons p ps)
      with eq have "ys = ps @ a @ post" by simp
      then show ?thesis by blast
    qed
  next
    assume "(\<exists>post. y # ys = a @ post) \<or> (\<exists>pre post. ys = pre @ a @ post)"
    then show "\<exists>pre post. y # ys = pre @ a @ post"
    proof
      assume "\<exists>post. y # ys = a @ post"
      then obtain post where "y # ys = [] @ a @ post" by auto
      then show ?thesis by blast
    next
      assume "\<exists>pre post. ys = pre @ a @ post"
      then obtain pre post where "y # ys = (y # pre) @ a @ post" by auto
      then show ?thesis by blast
    qed
  qed
  with Cons show ?case by (simp add: starts_with_iff)
qed

lemma py_in_Nil [simp]: "py_in [] b"
  by (cases b) simp_all

lemma py_split_nonempty: "py_split c s \<noteq> []"
  by (induction s) (auto split: list.splits)

text \<open>The operations on strings with letters and whitespace beyond ASCII.\<close>

lemma string_operations_samples:
  "py_lower ([CHR 0xC9] @ ''COLE'' @ [CHR 0xD7, CHR 0xDF])
     = [CHR 0xE9] @ ''cole'' @ [CHR 0xD7, CHR 0xDF]
   \<and> py_strip ([CHR 0xA0, CHR 0x1C] @ '' skyrim.exe'' @ [CHR 0x85, CHR 0x09]) = ''skyrim.exe''
   \<and> py_split CHR '','' ''a,,b,'' = [''a'', [], ''b'', []]
   \<and> py_in ''rim'' ''skyrim.exe'' \<and> \<not> py_in ''rims'' ''skyrim.exe''"
  by code_simp

section \<open>The liveness probe\<close>

lemma match_entry_iff:
  "match_entry es nm \<noteq> None \<longleftrightarrow> (\<exists>e\<in>set es. py_in (py_lower (py_strip e)) (py_lower nm))"
  by (induction es) (auto simp: Let_def)

lemma match_entry_Some:
  "match_entry es nm = Some w \<Longrightarrow> w \<in> set (map py_strip es) \<and> py_in (py_lower w) (py_lower nm)"
  by (induction es) (auto simp: Let_def split: if_splits)

text \<open>
  On a table in which every name could be read, neither probe raises, and each
  answers true exactly when some process matches an entry.
\<close>

lemma scan_processes_enumerable:
  "list_all enumerable ps \<Longrightarrow>
   scan_processes pl ps = Inr None
     \<and> (\<forall>p nm. Proc p (Some nm) \<in> set ps \<longrightarrow> match_entry pl nm = None)
   \<or> (\<exists>w p nm. scan_processes pl ps = Inr (Some (w, p)) \<and> Proc p (Some nm) \<in> set ps
         \<and> match_entry pl nm = Some w)"
  by (induction pl ps rule: scan_processes.induct) (auto split: option.splits)

lemma is_process_running_enumerable:
  assumes "list_all enumerable table"
  shows "is_process_running names table =
           Inr (\<exists>p nm. Proc p (Some nm) \<in> set table \<and>
                  (\<exists>w\<in>set (watch_list names). \<exists>pre post. py_lower nm = pre @ py_lower w @ post))"
proof -
  have m: "match_entry (py_split CHR '','' names) nm \<noteq> None \<longleftrightarrow>
        (\<exists>w\<in>set (watch_list names). \<exists>pre post. py_lower nm = pre @ py_lower w @ post)" for nm
    unfolding match_entry_iff watch_list_def py_in_iff by auto
  from scan_processes_enumerable [OF assms, of "py_split CHR '','' names"]
  show ?thesis
  proof
    assume a: "scan_processes (py_split CHR '','' names) table = Inr None
     \<and> (\<forall>p nm. Proc p (Some nm) \<in> set table \<longrightarrow> match_entry (py_split CHR '','' names) nm = None)"
    then have "\<not> (\<exists>p nm. Proc p (Some nm) \<in> set table \<and>
                  (\<exists>w\<in>set (watch_list names). \<exists>pre post. py_lower nm = pre @ py_lower w @ post))"
      using m by blast
    with a show ?thesis by (simp add: is_process_running_def is_process_running_log_def)
  next
    assume "\<exists>w p nm. scan_processes (py_split CHR '','' names) table = Inr (Some (w, p))
         \<and> Proc p (Some nm) \<in> set table \<and> match_entry (py_split CHR '','' names) nm = Some w"
    then obtain w p nm where a: "scan_processes (py_split CHR '','' names) table = Inr (Some (w, p))"
      "Proc p (Some nm) \<in> set table" "match_entry (py_split CHR '','' names) nm = Some w" by blast
    then have "\<exists>p nm. Proc p (Some nm) \<in> set table \<and>
                  (\<exists>w\<in>set (watch_list names). \<exists>pre post. py_lower nm = pre @ py_lower w @ post)"
      using m [of nm] by blast
    with a show ?thesis by (simp add: is_process_running_def is_process_running_log_def)
  qed
qed

lemma vas_is_process_running_enumerable:
  "list_all enumerable table \<Longrightarrow>
   vas_is_process_running name_list table =
     Inr (\<exists>p nm. Proc p (Some nm) \<in> set table \<and> (\<exists>w\<in>set name_list. py_lower w = py_lower nm))"
  by (induction name_list table rule: vas_is_process_running.induct)
     (auto simp: list_ex_iff)

text \<open>
  The scan stops at the first process that matches, whatever follows it; and it
  stops at the first process whose name is \<open>None\<close>, whatever follows it.
\<close>

lemma scan_processes_first:
  "scan_processes pl before = Inr None \<Longrightarrow> match_entry pl nm = Some w \<Longrightarrow>
   scan_processes pl (before @ Proc p (Some nm) # rest) = Inr (Some (w, p))"
  by (induction pl before rule: scan_processes.induct) (auto split: option.splits if_splits)

lemma scan_processes_unreadable:
  "scan_processes pl before = Inr None \<Longrightarrow> pl \<noteq> [] \<Longrightarrow>
   scan_processes pl (before @ Proc p None # rest) = Inl AttributeError"
  by (induction pl before rule: scan_processes.induct) (auto split: option.splits if_splits)

lemma vas_is_process_running_unreadable:
  "vas_is_process_running name_list before = Inr False \<Longrightarrow>
   vas_is_process_running name_list (before @ Proc p None # rest) = Inl AttributeError"
  by (induction name_list before rule: vas_is_process_running.induct) (auto split: if_splits)

text \<open>
  Claim C7 at a failing input. The table holds a process whose name could not be
  read (pid 4) and, after it, \<open>SkyrimVR.exe\<close> (pid 7), which matches the watch-list
  of either probe. The claim asks for the answer true, the first process being
  passed over. Both probes raise \<open>AttributeError\<close> instead, and the loop of
  \<open>monitor_process\<close> ends with the snapshot of the error. Without the first process
  both probes answer true.
\<close>

theorem probe_raises_on_unreadable_name:
  "is_process_running ''Skyrim , notepad'' [Proc 4 None, Proc 7 (Some ''SkyrimVR.exe'')]
     = Inl AttributeError
   \<and> vas_is_process_running [''skyrimvr.exe'', ''skyrim.exe'']
        [Proc 4 None, Proc 7 (Some ''SkyrimVR.exe'')] = Inl AttributeError
   \<and> is_process_running_log ''Skyrim , notepad'' [Proc 7 (Some ''SkyrimVR.exe'')]
     = Inr (Some (''Skyrim'', 7))
   \<and> is_process_running ''Skyrim , notepad'' [Proc 7 (Some ''SkyrimVR.exe'')] = Inr True
   \<and> vas_is_process_running [''skyrimvr.exe'', ''skyrim.exe'']
        [Proc 7 (Some ''SkyrimVR.exe'')] = Inr True
   \<and> run (sample_config ''Skyrim , notepad'' 600000000)
        [(sample_env 5000000)\<lparr>procs := [Proc 4 None, Proc 7 (Some ''SkyrimVR.exe'')]\<rparr>,
         sample_env 10000000]
        (initial_state 0 [])
     = (Exit_Error (initial_state 0 []),
        [Update_Status (''Error: '' @ error_message AttributeError) False None])"
  by code_simp

section \<open>An empty watch-list entry\<close>

lemma py_split_snoc: "py_split c (s @ [c]) = py_split c s @ [[]]"
  by (induction s) (auto simp: py_split_nonempty split: list.splits)

lemma py_strip_Nil [simp]: "py_strip [] = []"
  by (simp add: py_strip_def)

lemma py_lower_Nil [simp]: "py_lower [] = []"
  by (simp add: py_lower_def)

lemma trailing_comma_empty_entry: "[] \<in> set (watch_list (names @ '',''))"
  by (simp add: watch_list_def py_split_snoc)

text \<open>
  With an empty entry in the watch-list the first process of the table decides: a
  name that could be read contains the empty string, a name \<open>None\<close> raises.
\<close>

lemma empty_entry_match:
  assumes "[] \<in> set (watch_list names)"
  shows "match_entry (py_split CHR '','' names) nm \<noteq> None"
proof -
  from assms obtain e where e: "e \<in> set (py_split CHR '','' names)" "py_strip e = []"
    by (auto simp: watch_list_def)
  then have "py_in (py_lower (py_strip e)) (py_lower nm)" by simp
  with e(1) show ?thesis unfolding match_entry_iff by blast
qed

lemma empty_entry_probe:
  assumes "[] \<in> set (watch_list names)"
  shows "is_process_running names (Proc p (Some nm) # rest) = Inr True"
    and "is_process_running names (Proc p None # rest) = Inl AttributeError"
proof -
  from empty_entry_match [OF assms, of nm]
  show "is_process_running names (Proc p (Some nm) # rest) = Inr True"
    by (auto simp: is_process_running_def is_process_running_log_def)
  show "is_process_running names (Proc p None # rest) = Inl AttributeError"
    by (simp add: is_process_running_def is_process_running_log_def py_split_nonempty)
qed

lemma empty_entry_not_False:
  assumes "[] \<in> set (watch_list names)" and "table \<noteq> []"
  shows "is_process_running names table \<noteq> Inr False"
proof -
  from assms(2) obtain p n rest where t: "table = Proc p n # rest"
    by (cases table; metis proc.exhaust)
  show ?thesis
  proof (cases n)
    case None
    with t empty_entry_probe(2) [OF assms(1)] show ?thesis by simp
  next
    case (Some nm)
    with t empty_entry_probe(1) [OF assms(1)] show ?thesis by simp
  qed
qed

text \<open>
  The timeout branch is entered only after the probe has answered false: in a run in
  which it never does, the remote API is never called from that branch.
\<close>

lemma handle_command_no_timeout:
  "handle_command cfg e s c = (r, ev) \<Longrightarrow> \<not> list_ex timeout_call ev"
  by (auto simp: handle_command_def list_ex_iff Let_def split: option.splits command.splits)

lemma monitor_probe_not_False:
  assumes "is_process_running (processes_to_monitor cfg) (procs e) \<noteq> Inr False"
  shows "\<not> list_ex timeout_call (snd (monitor cfg e s))"
proof (cases "is_process_running (processes_to_monitor cfg) (procs e)")
  case (Inl err)
  then show ?thesis by (simp add: monitor_def probe_change_def)
next
  case (Inr b)
  with assms have "b" by simp
  with Inr show ?thesis by (simp add: monitor_def probe_change_def)
qed

lemma tick_probe_not_False:
  assumes "is_process_running (processes_to_monitor cfg) (procs e) \<noteq> Inr False"
  shows "\<not> list_ex timeout_call (snd (tick cfg e s))"
proof -
  obtain c dir errs where
    c: "check_for_commands (normcase e) (remove_fails e) (command_files s @ new_files e)
          = (c, dir, errs)"
    by (cases "check_for_commands (normcase e) (remove_fails e) (command_files s @ new_files e)")
      auto
  obtain r ev where h: "handle_command cfg e (s\<lparr>command_files := dir\<rparr>) c = (r, ev)"
    by (cases "handle_command cfg e (s\<lparr>command_files := dir\<rparr>) c") auto
  note nt = handle_command_no_timeout [OF h]
  show ?thesis
  proof (cases r)
    case None
    with c h nt show ?thesis by (simp add: tick_def)
  next
    case (Some s1)
    obtain out ev' where m: "monitor cfg e s1 = (out, ev')" by (cases "monitor cfg e s1") auto
    with monitor_probe_not_False [OF assms, of s1] have "\<not> list_ex timeout_call ev'" by simp
    with Some c h nt m show ?thesis by (simp add: tick_def)
  qed
qed

lemma run_probe_not_False:
  "\<forall>e\<in>set es. is_process_running (processes_to_monitor cfg) (procs e) \<noteq> Inr False \<Longrightarrow>
   \<not> list_ex timeout_call (snd (run cfg es s))"
proof (induction es arbitrary: s)
  case Nil
  then show ?case by simp
next
  case (Cons e es)
  from Cons.prems have p: "is_process_running (processes_to_monitor cfg) (procs e) \<noteq> Inr False"
    by simp
  from Cons.prems
  have rest: "\<forall>e\<in>set es. is_process_running (processes_to_monitor cfg) (procs e) \<noteq> Inr False"
    by simp
  obtain out ev where t: "tick cfg e s = (out, ev)" by (cases "tick cfg e s") auto
  with tick_probe_not_False [OF p, of s] have nt: "\<not> list_ex timeout_call ev" by simp
  show ?case
  proof (cases out)
    case (Continue s')
    obtain out' ev' where r: "run cfg es s' = (out', ev')" by (cases "run cfg es s'") auto
    with Cons.IH [OF rest, of s'] have "\<not> list_ex timeout_call ev'" by simp
    with t Continue r nt show ?thesis by simp
  next
    case (Exit_Stop s')
    with t nt show ?thesis by simp
  next
    case (Break_Deleted s')
    with t nt show ?thesis by simp
  next
    case (Exit_Error s')
    with t nt show ?thesis by simp
  qed
qed

lemma empty_entry_never_deletes:
  assumes "[] \<in> set (watch_list (processes_to_monitor cfg))"
    and "\<forall>e\<in>set es. procs e \<noteq> []"
  shows "\<not> list_ex timeout_call (snd (run cfg es s))"
  using assms by (intro run_probe_not_False ballI empty_entry_not_False) auto

text \<open>
  Claim C10 at a failing input. The watch-list \<open>skyrim.exe,\<close> has an empty entry, and
  the table holds one process whose name could be read, \<open>explorer.exe\<close>; the claim
  asks for the answer true. With a process before it whose name could not be read
  the probe raises \<open>AttributeError\<close>, and the loop ends at that pass with the
  snapshot of the error. With the two processes in the other order the probe
  answers true.
\<close>

theorem empty_watch_entry_probe_raises:
  "watch_list ''skyrim.exe,'' = [''skyrim.exe'', []]
   \<and> is_process_running ''skyrim.exe,'' [Proc 4 None, Proc 7 (Some ''explorer.exe'')]
     = Inl AttributeError
   \<and> is_process_running ''skyrim.exe,'' [Proc 7 (Some ''explorer.exe''), Proc 4 None]
     = Inr True
   \<and> is_process_running ''skyrim.exe'' [Proc 7 (Some ''explorer.exe'')] = Inr False
   \<and> run (sample_config ''skyrim.exe,'' 0)
        [(sample_env 5)\<lparr>procs := [Proc 4 None, Proc 7 (Some ''explorer.exe'')]\<rparr>,
         sample_env 10]
        (initial_state 0 [])
     = (Exit_Error (initial_state 0 []),
        [Update_Status (''Error: '' @ error_message AttributeError) False None])"
  by code_simp

section \<open>Selecting the remote resources\<close>











section \<open>Status files\<close>

lemma update_status_same_file:
  "status_file t' = status_file t \<Longrightarrow>
   update_status d' t' st' r' tr' (update_status d t st r tr dir)
     = update_status d' t' st' r' tr' dir"
  by (simp add: update_status_def)

lemma sf1: "status_file 1700000000200001 = ''status_1700000000.json''"
  by (simp add: status_file_def trunc_seconds_def str_int_def str_nat.simps digit_char_def)

lemma sf2: "status_file 1700000000700001 = ''status_1700000000.json''"
  by (simp add: status_file_def trunc_seconds_def str_int_def str_nat.simps digit_char_def)

text \<open>
  Claim C9 at a failing input: two calls of \<open>update_status\<close> whose clock readings
  fall into the same second (1700000000.2 s and 1700000000.7 s) write the same file
  \<open>status_1700000000.json\<close>; after both calls the directory holds one file, with
  the second record, and the first record is gone.
\<close>

theorem status_file_overwritten_within_one_second:
  "status_file 1700000000200001 = ''status_1700000000.json''
   \<and> status_file 1700000000700001 = ''status_1700000000.json''
   \<and> publish_all
        [(1700000000200000, 1700000000200001, ''Process Running'', True, None),
         (1700000000700000, 1700000000700001, ''Process Running'', True,
          Some ''N/A - Process Running'')] Map.empty
      = [''status_1700000000.json'' \<mapsto>
           \<lparr> snap_timestamp = 1700000000700000, snap_status = ''Process Running'',
             snap_process_running = True,
             snap_time_remaining = Some ''N/A - Process Running'' \<rparr>]"
  by (simp add: sf1 sf2 update_status_def)

section \<open>The command channel\<close>

lemma glob_set [simp]: "set (glob nc p dir) = {f \<in> set dir. matches_pattern nc p f}"
  by (simp add: glob_def)

text \<open>No file name matches the patterns of two commands.\<close>

lemma patterns_disjoint:
  "matches_pattern nc (pattern_prefix k) f \<Longrightarrow> matches_pattern nc (pattern_prefix k') f \<Longrightarrow>
   k = k'"
  by (cases k; cases k'; cases "nc f") (auto simp: matches_pattern_def)

lemma remove_files_ok:
  "distinct fs \<Longrightarrow> set fs \<subseteq> set dir \<Longrightarrow> \<forall>f\<in>set fs. \<not> fails f \<Longrightarrow>
   remove_files fails fs dir = (True, filter (\<lambda>f. f \<notin> set fs) dir)"
proof (induction fs arbitrary: dir)
  case Nil
  then show ?case by simp
next
  case (Cons f fs)
  from Cons.prems have f: "\<not> fails f" "f \<in> set dir" "f \<notin> set fs" by auto
  from Cons.prems f have sub: "set fs \<subseteq> set (removeAll f dir)" by auto
  from Cons.prems have "distinct fs" "\<forall>g\<in>set fs. \<not> fails g" by auto
  from Cons.IH [OF this(1) sub this(2)]
  have "remove_files fails fs (removeAll f dir)
          = (True, filter (\<lambda>g. g \<notin> set fs) (removeAll f dir))" .
  moreover have "filter (\<lambda>g. g \<notin> set fs) (removeAll f dir)
                 = filter (\<lambda>g. g \<notin> set (f # fs)) dir"
    by (induction dir) auto
  ultimately show ?case using f by simp
qed

lemma try_command_ok:
  assumes "distinct dir" and "\<forall>f\<in>set (glob nc p dir). \<not> fails f"
  shows "try_command nc fails p dir =
           (if glob nc p dir = [] then (Not_Found, dir)
            else (Returned, filter (\<lambda>f. \<not> matches_pattern nc p f) dir))"
proof (cases "glob nc p dir = []")
  case True
  then show ?thesis by (simp add: try_command_def)
next
  case False
  have "remove_files fails (glob nc p dir) dir
          = (True, filter (\<lambda>f. f \<notin> set (glob nc p dir)) dir)"
    using assms by (intro remove_files_ok) (auto simp: glob_def)
  moreover have "filter (\<lambda>f. f \<notin> set (glob nc p dir)) dir
                 = filter (\<lambda>f. \<not> matches_pattern nc p f) dir"
    by (rule filter_cong) auto
  ultimately show ?thesis using False by (simp add: try_command_def)
qed

lemma check_for_commands_ok:
  assumes "distinct dir" and "\<forall>f\<in>set dir. \<not> fails f"
  shows "check_for_commands nc fails dir =
     (if glob nc ''stop_'' dir \<noteq> [] then
        (Some Stop, filter (\<lambda>f. \<not> matches_pattern nc ''stop_'' f) dir, [])
      else if glob nc ''delete_now_'' dir \<noteq> [] then
        (Some Delete_Now, filter (\<lambda>f. \<not> matches_pattern nc ''delete_now_'' f) dir, [])
      else if glob nc ''pause_'' dir \<noteq> [] then
        (Some Pause, filter (\<lambda>f. \<not> matches_pattern nc ''pause_'' f) dir, [])
      else if glob nc ''resume_'' dir \<noteq> [] then
        (Some Resume, filter (\<lambda>f. \<not> matches_pattern nc ''resume_'' f) dir, [])
      else (None, dir, []))"
  using assms by (simp add: check_for_commands_def try_command_ok logged_def)

lemma glob_after:
  "glob nc (pattern_prefix k') (filter (\<lambda>f. \<not> matches_pattern nc (pattern_prefix k) f) dir)
     = (if k' = k then [] else glob nc (pattern_prefix k') dir)"
proof (cases "k' = k")
  case True
  then show ?thesis by (simp add: glob_def)
next
  case False
  have "filter (matches_pattern nc (pattern_prefix k'))
          (filter (\<lambda>f. \<not> matches_pattern nc (pattern_prefix k) f) dir)
        = filter (matches_pattern nc (pattern_prefix k')) dir"
    unfolding filter_filter
    by (rule filter_cong) (use False patterns_disjoint in auto)
  with False show ?thesis by (simp add: glob_def)
qed

lemmas glob_after_cases =
  glob_after [of _ Stop Stop, simplified] glob_after [of _ Delete_Now Stop, simplified]
  glob_after [of _ Pause Stop, simplified] glob_after [of _ Resume Stop, simplified]
  glob_after [of _ Stop Delete_Now, simplified] glob_after [of _ Delete_Now Delete_Now, simplified]
  glob_after [of _ Pause Delete_Now, simplified] glob_after [of _ Resume Delete_Now, simplified]
  glob_after [of _ Stop Pause, simplified] glob_after [of _ Delete_Now Pause, simplified]
  glob_after [of _ Pause Pause, simplified] glob_after [of _ Resume Pause, simplified]
  glob_after [of _ Stop Resume, simplified] glob_after [of _ Delete_Now Resume, simplified]
  glob_after [of _ Pause Resume, simplified] glob_after [of _ Resume Resume, simplified]

lemma all_commands: "(\<forall>k. P k) \<longleftrightarrow> P Stop \<and> P Delete_Now \<and> P Pause \<and> P Resume"
  by (metis command.exhaust)

text \<open>
  When the directory lists no name twice and every removal succeeds,
  \<open>check_for_commands\<close> keeps to the order of the four blocks. When it returns a
  command, a file matches its pattern, no file matches the pattern of a command that
  ranks before it, the directory afterwards is the directory before without the
  files that match the pattern of the command returned, and the files that match the
  pattern of any other command are the same as before. When it returns \<open>None\<close>, no
  file matches any of the four patterns and the directory is as it was.
\<close>

lemma check_for_commands_priority:
  assumes d: "distinct dir" and nf: "\<forall>f\<in>set dir. \<not> fails f"
  shows "case check_for_commands nc fails dir of
        (None, dir', errors) \<Rightarrow>
          (\<forall>k. glob nc (pattern_prefix k) dir = []) \<and> dir' = dir \<and> errors = []
      | (Some k, dir', errors) \<Rightarrow>
          glob nc (pattern_prefix k) dir \<noteq> []
          \<and> (\<forall>k'. priority k' < priority k \<longrightarrow> glob nc (pattern_prefix k') dir = [])
          \<and> dir' = filter (\<lambda>f. \<not> matches_pattern nc (pattern_prefix k) f) dir
          \<and> glob nc (pattern_prefix k) dir' = []
          \<and> (\<forall>k'. k' \<noteq> k \<longrightarrow>
                glob nc (pattern_prefix k') dir' = glob nc (pattern_prefix k') dir)
          \<and> errors = []"
proof -
  note eq = check_for_commands_ok [OF d nf, of nc]
  consider (s) "glob nc ''stop_'' dir \<noteq> []"
    | (d) "glob nc ''stop_'' dir = []" "glob nc ''delete_now_'' dir \<noteq> []"
    | (p) "glob nc ''stop_'' dir = []" "glob nc ''delete_now_'' dir = []"
          "glob nc ''pause_'' dir \<noteq> []"
    | (r) "glob nc ''stop_'' dir = []" "glob nc ''delete_now_'' dir = []"
          "glob nc ''pause_'' dir = []" "glob nc ''resume_'' dir \<noteq> []"
    | (n) "glob nc ''stop_'' dir = []" "glob nc ''delete_now_'' dir = []"
          "glob nc ''pause_'' dir = []" "glob nc ''resume_'' dir = []"
    by blast
  then show ?thesis
  proof cases
    case s
    then show ?thesis by (simp add: eq all_commands glob_after_cases)
  next
    case d
    then show ?thesis by (simp add: eq all_commands glob_after_cases)
  next
    case p
    then show ?thesis by (simp add: eq all_commands glob_after_cases)
  next
    case r
    then show ?thesis by (simp add: eq all_commands glob_after_cases)
  next
    case n
    then show ?thesis by (simp add: eq all_commands)
  qed
qed

text \<open>
  A stop command whose files can all be removed ends the loop in the pass that finds
  it, before the probe and the timer: one snapshot, no call of the remote API.
\<close>

lemma check_for_commands_stop:
  assumes "distinct dir" and "glob nc ''stop_'' dir \<noteq> []"
    and "\<forall>f\<in>set (glob nc ''stop_'' dir). \<not> fails f"
  shows "check_for_commands nc fails dir
           = (Some Stop, filter (\<lambda>f. \<not> matches_pattern nc ''stop_'' f) dir, [])"
  using assms(2) by (simp add: check_for_commands_def try_command_ok [OF assms(1,3)])

lemma tick_stop:
  assumes "distinct (command_files s @ new_files e)"
    and "glob (normcase e) ''stop_'' (command_files s @ new_files e) \<noteq> []"
    and "\<forall>f\<in>set (glob (normcase e) ''stop_'' (command_files s @ new_files e)).
           \<not> remove_fails e f"
  shows "tick cfg e s =
           (Exit_Stop (s\<lparr>command_files :=
                          filter (\<lambda>f. \<not> matches_pattern (normcase e) ''stop_'' f)
                            (command_files s @ new_files e)\<rparr>),
            [Update_Status ''Monitoring Stopped'' (process_running s) None])"
  by (simp add: tick_def check_for_commands_stop [OF assms] handle_command_def)

text \<open>
  Claim C5 at a failing input. The directory holds two stop files and a resume file,
  and the second stop file cannot be removed. The claim asks that the stop command
  be returned, both stop files be gone and the resume file be left. The function
  removes the first stop file, logs the error of the second, goes on to the blocks
  below, removes the resume file and returns the resume command. With every file
  removable it does what the claim says.
\<close>

theorem check_for_commands_returns_lower_priority:
  "check_for_commands (\<lambda>f. f) (\<lambda>f. f = ''stop_2.json'')
       [''stop_1.json'', ''stop_2.json'', ''resume_3.json'']
     = (Some Resume, [''stop_2.json''], [Stop])
   \<and> check_for_commands (\<lambda>f. f) (\<lambda>f. False)
       [''stop_1.json'', ''stop_2.json'', ''resume_3.json'']
     = (Some Stop, [''resume_3.json''], [])"
  by code_simp

text \<open>
  Claim C6 at a failing input. The directory holds a stop file that cannot be removed
  and a pause file. The claim asks that the stop command, the highest in rank with
  a file present, be the one delivered. The function logs the error and returns the
  pause command, the stop file still being there; in the next pass, with the stop
  file alone, it returns \<open>None\<close>: the stop command is not delivered as long as its
  file cannot be removed.
\<close>

theorem removal_failure_skips_command:
  "check_for_commands (\<lambda>f. f) (\<lambda>f. f = ''stop_1.json'') [''stop_1.json'', ''pause_1.json'']
     = (Some Pause, [''stop_1.json''], [Stop])
   \<and> check_for_commands (\<lambda>f. f) (\<lambda>f. f = ''stop_1.json'') [''stop_1.json'']
     = (None, [''stop_1.json''], [Stop])"
  by code_simp

text \<open>
  Claim C2 at a failing input. The grace period of ten minutes expired long ago, the
  process is not running, a stop file is in the directory and cannot be removed. The
  claim asks that the loop act on the stop command and end without a deletion. The
  stop command is not delivered, the pass goes on to the probe and the timer, and
  the remote resource is deleted. With the file removable the pass ends the loop
  with the snapshot \<open>Monitoring Stopped\<close> and nothing is deleted.
\<close>

theorem stop_file_not_removable_deletion_proceeds:
  "tick (sample_config ''skyrim.exe'' 600000000)
       ((sample_env 900000000)
          \<lparr>remove_fails := (\<lambda>f. True),
            response_timeout := Instances [sample_inst 123 ''XTTS''],
            delete_ok_timeout := (\<lambda>n. True)\<rparr>)
       (initial_state 0 [''stop_1700000000.json''])
     = (Break_Deleted (initial_state 0 [''stop_1700000000.json'']),
        [Get_Instances On_Timeout, Delete_Instance On_Timeout 123,
         Update_Status ''Instances Deleted, Monitoring Stopped'' False None])
   \<and> tick (sample_config ''skyrim.exe'' 600000000)
       ((sample_env 900000000)
          \<lparr>response_timeout := Instances [sample_inst 123 ''XTTS''],
            delete_ok_timeout := (\<lambda>n. True)\<rparr>)
       (initial_state 0 [''stop_1700000000.json''])
     = (Exit_Stop (initial_state 0 []),
        [Update_Status ''Monitoring Stopped'' False None])"
  by code_simp

section \<open>Sample passes of the loop\<close>

text \<open>
  The text of the time remaining: six minutes and four seconds; more than an hour;
  and, past the timeout, the floor division of Python on a negative number of
  seconds.
\<close>

lemma format_remaining_samples:
  "format_remaining 364000000 = ''6m 4s''
   \<and> format_remaining 3661000000 = ''1h 1m 1s''
   \<and> format_remaining (- 61500000) = ''58m 59s''"
  by (simp add: format_remaining_def trunc_seconds_def str_int_def str_nat.simps
        digit_char_def Let_def)

text \<open>
  A pass before the timeout publishes the time remaining and sleeps. A pass in which
  a watched process is seen for the first time records the change and the clock.
\<close>

lemma quiet_pass_sample:
  "tick (sample_config ''skyrim.exe'' 600000000) (sample_env 236000000) (initial_state 0 [])
     = (Continue (initial_state 0 []),
        [Update_Status ''Process Not Running - 6m 4s until deletion'' False (Some ''6m 4s''),
         Sleep 5])
   \<and> tick (sample_config ''skyrim.exe'' 600000000)
       ((sample_env 236000000)\<lparr>procs := [Proc 4 None]\<rparr>) (initial_state 0 [])
     = (Exit_Error (initial_state 0 []),
        [Update_Status (''Error: '' @ error_message AttributeError) False None])
   \<and> tick (sample_config ''skyrim.exe'' 600000000)
       ((sample_env 236000000)\<lparr>procs := [Proc 7 (Some ''Skyrim.exe'')]\<rparr>)
       (initial_state 0 [])
     = (Continue ((initial_state 0 [])\<lparr>process_running := True,
                    last_seen_running := 236000000\<rparr>),
        [Update_Status ''Process Running'' True None,
         Update_Status ''Process Running'' True (Some ''N/A - Process Running''),
         Sleep 5])"
  by code_simp

text \<open>
  A pause command, a pass of the paused loop, and a resume command: while paused the
  loop only sleeps a second; the timer has gone on in the meantime.
\<close>

lemma pause_resume_sample:
  "run (sample_config ''skyrim.exe'' 600000000)
       [(sample_env 5000000)\<lparr>new_files := [''pause_1.json'']\<rparr>,
        sample_env 6000000,
        (sample_env 7000000)\<lparr>new_files := [''resume_2.json'']\<rparr>]
       (initial_state 0 [])
     = (Continue (initial_state 0 []),
        [Update_Status ''Monitoring Paused'' False None, Sleep 1,
         Sleep 1,
         Update_Status ''Monitoring Resumed'' False None,
         Update_Status ''Process Not Running - 9m 53s until deletion'' False (Some ''9m 53s''),
         Sleep 5])"
  by code_simp

text \<open>
  A \<open>delete_now\<close> command deletes the listed resources that have an id, whatever the
  timer, and the pass goes on. The standalone script falls back on \<open>instance_id\<close>.
\<close>

lemma delete_now_sample:
  "handle_command (sample_config ''skyrim.exe'' 600000000)
       ((sample_env 5000000)
          \<lparr>response_delete_now :=
             Instances [sample_inst 123 ''XTTS'', sample_inst 0 ''XTTS'',
                        (sample_inst 5 ''XTTS'')\<lparr>inst_id := Null\<rparr>, sample_inst 9 ''other'']\<rparr>)
       (initial_state 0 []) (Some Delete_Now)
     = (Some (initial_state 0 []),
        [Get_Instances On_Delete_Now, Delete_Instance On_Delete_Now 123])
   \<and> vas_instance_ids
       [(sample_inst 0 ''a'')\<lparr>inst_instance_id := Val 77\<rparr>,
        (sample_inst 1 ''b'')\<lparr>inst_id := Null\<rparr>, sample_inst 5 ''c'']
     = [77, 5]"
  by code_simp

text \<open>
  With the \<open>normcase\<close> of Windows, here lower-casing, a file name in capitals matches
  the pattern; with that of POSIX it does not.
\<close>

lemma normcase_sample:
  "check_for_commands py_lower (\<lambda>f. False) [''STOP_1.JSON'', ''Pause_2.json'']
     = (Some Stop, [''Pause_2.json''], [])
   \<and> check_for_commands (\<lambda>f. f) (\<lambda>f. False) [''STOP_1.JSON'', ''Pause_2.json'']
     = (None, [''STOP_1.JSON'', ''Pause_2.json''], [])
   \<and> check_for_commands (\<lambda>f. f) (\<lambda>f. False) [''stop_.json'', ''stop_json'', ''xstop_1.json'']
     = (Some Stop, [''stop_json'', ''xstop_1.json''], [])"
  by code_simp

section \<open>The timer\<close>

lemma probe_change_events:
  "probe_change cfg e s = Inr (s1, ev1) \<Longrightarrow> Get_Instances On_Timeout \<notin> set ev1"
  by (auto simp: probe_change_def split: sum.splits if_splits)

lemma timeout_reached_invoked:
  "Get_Instances On_Timeout \<in> set (snd (timeout_reached cfg e s remaining))"
  by (simp add: timeout_reached_def Let_def)

lemma report_remaining_events: "Get_Instances On_Timeout \<notin> set (report_remaining remaining)"
  by (simp add: report_remaining_def Let_def)


text \<open>
  The timeout branch of a pass is entered exactly when the probe answers false and
  the time since \<open>last_seen_running\<close>, as it is after the change of state of this
  pass, has reached the timeout.
\<close>

lemma monitor_invoked_iff:
  "timeout_deletion_invoked (snd (monitor cfg e s)) \<longleftrightarrow>
     (\<exists>s1 ev1. probe_change cfg e s = Inr (s1, ev1) \<and> \<not> process_running s1
        \<and> timeout cfg \<le> now_check e - last_seen_running s1)"
proof (cases "probe_change cfg e s")
  case (Inl err)
  then show ?thesis by (simp add: monitor_def timeout_deletion_invoked_def)
next
  case (Inr r)
  obtain s1 ev1 where r: "r = (s1, ev1)" by (cases r) auto
  note ne = probe_change_events [OF Inr [unfolded r]]
  show ?thesis
  proof (cases "\<not> process_running s1 \<and> timeout cfg \<le> now_check e - last_seen_running s1")
    case True
    obtain out ev2 where t: "timeout_reached cfg e s1 (timeout cfg - (now_check e - last_seen_running s1)) = (out, ev2)"
      by (cases "timeout_reached cfg e s1 (timeout cfg - (now_check e - last_seen_running s1))") auto
    with timeout_reached_invoked [of cfg e s1 "timeout cfg - (now_check e - last_seen_running s1)"]
    have "Get_Instances On_Timeout \<in> set ev2" by simp
    with True Inr r t show ?thesis
      by (simp add: monitor_def timeout_deletion_invoked_def Let_def)
  next
    case False
    with Inr r ne report_remaining_events show ?thesis
      by (auto simp: monitor_def timeout_deletion_invoked_def Let_def)
  qed
qed










section \<open>The timeout deletion\<close>

text \<open>
  After the timer has been set to \<open>t\<close>, a pass that reaches the probe with the answer
  still false enters the timeout branch exactly when its clock reads at least the
  timeout after \<open>t\<close>.
\<close>

lemma monitor_after_reset:
  assumes "\<not> process_running s"
    and "is_process_running (processes_to_monitor cfg) (procs e') = Inr False"
  shows "timeout_deletion_invoked (snd (monitor cfg e' (s\<lparr>last_seen_running := t\<rparr>)))
           \<longleftrightarrow> timeout cfg \<le> now_check e' - t"
  using assms unfolding monitor_invoked_iff by (simp add: probe_change_def)

lemma run_stops:
  "tick cfg e s = (out, ev) \<Longrightarrow> exit_code out \<noteq> None \<Longrightarrow> run cfg (e # es) s = (out, ev)"
  by (cases out) auto




text \<open>
  A pass that enters the timeout branch ends as the timeout deletion ends, after the
  events of the command and of the change of state.
\<close>

lemma tick_timeout_branch:
  assumes "check_for_commands (normcase e) (remove_fails e) (command_files s @ new_files e)
             = (command, dir, errors)"
    and "handle_command cfg e (s\<lparr>command_files := dir\<rparr>) command = (Some s0, ev0)"
    and "\<not> paused s0"
    and "probe_change cfg e s0 = Inr (s1, ev1)"
    and "\<not> process_running s1"
    and "timeout cfg \<le> now_check e - last_seen_running s1"
  shows "tick cfg e s =
           (fst (timeout_reached cfg e s1 (timeout cfg - (now_check e - last_seen_running s1))),
            ev0 @ ev1
              @ snd (timeout_reached cfg e s1
                       (timeout cfg - (now_check e - last_seen_running s1))))"
  using assms by (simp add: tick_def monitor_def Let_def split: prod.splits)

lemma vas_run_goes_on:
  "vas_tick vcfg ve vs = Inr (vs', vev) \<Longrightarrow>
   vas_run vcfg (ve # ves) vs = (fst (vas_run vcfg ves vs'), vev @ snd (vas_run vcfg ves vs'))"
  by (simp split: prod.splits)

text \<open>
  Claim C3, amended. In \<open>monitor_process\<close>, a pass that enters the timeout branch ends
  as the timeout deletion ends. When the deletion finds at least one resource and at
  least one call of \<open>delete_instance\<close> succeeds, it publishes the snapshot
  \<open>Instances Deleted, Monitoring Stopped\<close> and breaks out of the loop: the run ends
  with that pass, with exit code 0. When it finds at least one resource and no call
  succeeds, it sets \<open>last_seen_running\<close> to the clock of the reset and the loop goes on;
  with \<open>last_seen_running\<close> at that value, a pass that reaches the probe while the
  process is recorded as not running and the probe answers false enters the timeout
  branch exactly when its clock reads at least the grace period after the clock of
  the reset. In \<open>vast_auto_shutoff\<close>, a pass in which the probe answers
  false, the timeout is reached, the flag \<open>instances_terminated\<close> is not set and at
  least one resource is found attempts the deletions and sets the flag, whether or
  not a deletion succeeded; it leaves \<open>last_active_time\<close> as it is and the loop goes on
  with the next pass. As long as the flag is set, a pass in which the probe answers
  false does nothing; a pass in which the probe answers true sets \<open>last_active_time\<close>
  to its clock and clears the flag.
\<close>

theorem timeout_deletion_outcome:
  "(check_for_commands (normcase e) (remove_fails e) (command_files s @ new_files e)
        = (command, dir, errors)
      \<and> handle_command cfg e (s\<lparr>command_files := dir\<rparr>) command = (Some s0, ev0)
      \<and> \<not> paused s0
      \<and> probe_change cfg e s0 = Inr (s1, ev1)
      \<and> \<not> process_running s1
      \<and> timeout cfg \<le> now_check e - last_seen_running s1
      \<longrightarrow> tick cfg e s =
           (fst (timeout_reached cfg e s1 (timeout cfg - (now_check e - last_seen_running s1))),
            ev0 @ ev1
              @ snd (timeout_reached cfg e s1
                       (timeout cfg - (now_check e - last_seen_running s1)))))
   \<and> (get_instances (response_timeout e) (instance_identifier cfg) \<noteq> []
        \<and> list_ex (delete_ok_timeout e)
             (instance_ids (get_instances (response_timeout e) (instance_identifier cfg)))
      \<longrightarrow> timeout_reached cfg e s remaining =
            (Break_Deleted s,
             Get_Instances On_Timeout
               # map (Delete_Instance On_Timeout)
                   (instance_ids (get_instances (response_timeout e) (instance_identifier cfg)))
               @ [Update_Status ''Instances Deleted, Monitoring Stopped'' False None]))
   \<and> (tick cfg e s = (Break_Deleted s', ev)
      \<longrightarrow> run cfg (e # es) s = (Break_Deleted s', ev) \<and> exit_code (Break_Deleted s') = Some 0)
   \<and> (get_instances (response_timeout e) (instance_identifier cfg) \<noteq> []
        \<and> \<not> list_ex (delete_ok_timeout e)
               (instance_ids (get_instances (response_timeout e) (instance_identifier cfg)))
      \<longrightarrow> timeout_reached cfg e s remaining =
            (Continue (s\<lparr>last_seen_running := now_reset e\<rparr>),
             Get_Instances On_Timeout
               # map (Delete_Instance On_Timeout)
                   (instance_ids (get_instances (response_timeout e) (instance_identifier cfg)))
               @ report_remaining remaining))
   \<and> (\<not> process_running s
        \<and> is_process_running (processes_to_monitor cfg) (procs e') = Inr False
      \<longrightarrow> (timeout_deletion_invoked
             (snd (monitor cfg e' (s\<lparr>last_seen_running := now_reset e\<rparr>)))
           \<longleftrightarrow> timeout cfg \<le> now_check e' - now_reset e))
   \<and> (vas_is_process_running (vas_process_names vcfg) (vas_procs ve) = Inr False
        \<and> vas_timeout_minutes vcfg * one_minute \<le> vas_now_inactive ve - last_active_time vs
        \<and> \<not> instances_terminated vs
        \<and> vas_get_instances (vas_sdk ve) (vas_response ve) (vas_instance_label vcfg) \<noteq> []
      \<longrightarrow> vas_tick vcfg ve vs =
            Inr (vs\<lparr>instances_terminated := True\<rparr>,
                 Vas_Get_Instances
                   # vas_delete_all (vas_delete_ok ve)
                       (vas_instance_ids
                          (vas_get_instances (vas_sdk ve) (vas_response ve)
                             (vas_instance_label vcfg)))))
   \<and> (vas_tick vcfg ve vs = Inr (vs', vev)
      \<longrightarrow> vas_run vcfg (ve # ves) vs
            = (fst (vas_run vcfg ves vs'), vev @ snd (vas_run vcfg ves vs')))
   \<and> (vas_is_process_running (vas_process_names vcfg) (vas_procs ve) = Inr False
        \<and> instances_terminated vs
      \<longrightarrow> vas_tick vcfg ve vs = Inr (vs, []))
   \<and> (vas_is_process_running (vas_process_names vcfg) (vas_procs ve) = Inr True
      \<longrightarrow> vas_tick vcfg ve vs =
            Inr (vs\<lparr>last_active_time := vas_now_active ve, instances_terminated := False\<rparr>,
                 []))"
proof -
  have m0: "check_for_commands (normcase e) (remove_fails e) (command_files s @ new_files e)
        = (command, dir, errors)
      \<and> handle_command cfg e (s\<lparr>command_files := dir\<rparr>) command = (Some s0, ev0)
      \<and> \<not> paused s0
      \<and> probe_change cfg e s0 = Inr (s1, ev1)
      \<and> \<not> process_running s1
      \<and> timeout cfg \<le> now_check e - last_seen_running s1
      \<longrightarrow> tick cfg e s =
           (fst (timeout_reached cfg e s1 (timeout cfg - (now_check e - last_seen_running s1))),
            ev0 @ ev1
              @ snd (timeout_reached cfg e s1
                       (timeout cfg - (now_check e - last_seen_running s1))))"
    using tick_timeout_branch [of e s command dir errors cfg s0 ev0 s1 ev1] by blast
  have m1: "get_instances (response_timeout e) (instance_identifier cfg) \<noteq> []
        \<and> list_ex (delete_ok_timeout e)
             (instance_ids (get_instances (response_timeout e) (instance_identifier cfg)))
      \<longrightarrow> timeout_reached cfg e s remaining =
            (Break_Deleted s,
             Get_Instances On_Timeout
               # map (Delete_Instance On_Timeout)
                   (instance_ids (get_instances (response_timeout e) (instance_identifier cfg)))
               @ [Update_Status ''Instances Deleted, Monitoring Stopped'' False None])"
    by (simp add: timeout_reached_def Let_def)
  have m2: "tick cfg e s = (Break_Deleted s', ev)
      \<longrightarrow> run cfg (e # es) s = (Break_Deleted s', ev) \<and> exit_code (Break_Deleted s') = Some 0"
    by simp
  have m3: "get_instances (response_timeout e) (instance_identifier cfg) \<noteq> []
        \<and> \<not> list_ex (delete_ok_timeout e)
               (instance_ids (get_instances (response_timeout e) (instance_identifier cfg)))
      \<longrightarrow> timeout_reached cfg e s remaining =
            (Continue (s\<lparr>last_seen_running := now_reset e\<rparr>),
             Get_Instances On_Timeout
               # map (Delete_Instance On_Timeout)
                   (instance_ids (get_instances (response_timeout e) (instance_identifier cfg)))
               @ report_remaining remaining)"
    by (simp add: timeout_reached_def Let_def)
  have m4: "\<not> process_running s
        \<and> is_process_running (processes_to_monitor cfg) (procs e') = Inr False
      \<longrightarrow> (timeout_deletion_invoked
             (snd (monitor cfg e' (s\<lparr>last_seen_running := now_reset e\<rparr>)))
           \<longleftrightarrow> timeout cfg \<le> now_check e' - now_reset e)"
    using monitor_after_reset [of s cfg e' "now_reset e"] by blast
  have v1: "vas_is_process_running (vas_process_names vcfg) (vas_procs ve) = Inr False
        \<and> vas_timeout_minutes vcfg * one_minute \<le> vas_now_inactive ve - last_active_time vs
        \<and> \<not> instances_terminated vs
        \<and> vas_get_instances (vas_sdk ve) (vas_response ve) (vas_instance_label vcfg) \<noteq> []
      \<longrightarrow> vas_tick vcfg ve vs =
            Inr (vs\<lparr>instances_terminated := True\<rparr>,
                 Vas_Get_Instances
                   # vas_delete_all (vas_delete_ok ve)
                       (vas_instance_ids
                          (vas_get_instances (vas_sdk ve) (vas_response ve)
                             (vas_instance_label vcfg))))"
    by (simp add: vas_tick_def Let_def)
  have v2: "vas_tick vcfg ve vs = Inr (vs', vev)
      \<longrightarrow> vas_run vcfg (ve # ves) vs
            = (fst (vas_run vcfg ves vs'), vev @ snd (vas_run vcfg ves vs'))"
    using vas_run_goes_on [of vcfg ve vs vs' vev ves] by blast
  have v3: "vas_is_process_running (vas_process_names vcfg) (vas_procs ve) = Inr False
        \<and> instances_terminated vs
      \<longrightarrow> vas_tick vcfg ve vs = Inr (vs, [])"
    by (simp add: vas_tick_def Let_def)
  have v4: "vas_is_process_running (vas_process_names vcfg) (vas_procs ve) = Inr True
      \<longrightarrow> vas_tick vcfg ve vs =
            Inr (vs\<lparr>last_active_time := vas_now_active ve, instances_terminated := False\<rparr>,
                 [])"
    by (simp add: vas_tick_def)
  show ?thesis
    by (intro conjI) (rule m0 m1 m2 m3 m4 v1 v2 v3 v4)+
qed

text \<open>
  Claim C3, as stated, fails on the loop of \<open>vast_auto_shutoff\<close>. After a deletion
  that succeeded at ten minutes the loop does not end: the pass that follows is run,
  and the run is still going. After a deletion that failed at ten minutes
  \<open>last_active_time\<close> is not reset and nothing is retried, neither a full grace period
  later nor at a hundred minutes.
\<close>

theorem timeout_deletion_outcome_counterexample:
  "vas_run sample_vas_config [sample_vas_env 600000000 True, sample_vas_env 605000000 True]
       \<lparr> last_active_time = 0, instances_terminated = False \<rparr>
     = (Inr \<lparr> last_active_time = 0, instances_terminated = True \<rparr>,
        [Vas_Get_Instances, Vas_Delete_Instance 123, Vas_Notification 123])
   \<and> vas_run sample_vas_config
       [sample_vas_env 600000000 False, sample_vas_env 1200000000 False,
        sample_vas_env 6000000000 False]
       \<lparr> last_active_time = 0, instances_terminated = False \<rparr>
     = (Inr \<lparr> last_active_time = 0, instances_terminated = True \<rparr>,
        [Vas_Get_Instances, Vas_Delete_Instance 123])"
  by code_simp

theorem timeout_deletion_outcome_witness:
  "tick (sample_config ''skyrim.exe'' 600000000)
       ((sample_env 600000000)\<lparr>response_timeout := Instances [sample_inst 123 ''XTTS''],
                                delete_ok_timeout := (\<lambda>n. True)\<rparr>)
       (initial_state 0 [])
     = (Break_Deleted (initial_state 0 []),
        [Get_Instances On_Timeout, Delete_Instance On_Timeout 123,
         Update_Status ''Instances Deleted, Monitoring Stopped'' False None])
   \<and> run (sample_config ''skyrim.exe'' 600000000)
       [(sample_env 600000000)\<lparr>response_timeout := Instances [sample_inst 123 ''XTTS''],
                                 delete_ok_timeout := (\<lambda>n. True)\<rparr>,
        sample_env 605000000]
       (initial_state 0 [])
     = (Break_Deleted (initial_state 0 []),
        [Get_Instances On_Timeout, Delete_Instance On_Timeout 123,
         Update_Status ''Instances Deleted, Monitoring Stopped'' False None])
   \<and> timeout_reached (sample_config ''skyrim.exe'' 600000000)
       ((sample_env 600000000)\<lparr>response_timeout := Instances [sample_inst 123 ''XTTS'']\<rparr>)
       (initial_state 0 []) 0
     = (Continue ((initial_state 0 [])\<lparr>last_seen_running := 600000000\<rparr>),
        [Get_Instances On_Timeout, Delete_Instance On_Timeout 123] @ report_remaining 0)
   \<and> timeout_deletion_invoked
        (snd (monitor (sample_config ''skyrim.exe'' 600000000) (sample_env 1200000000)
                ((initial_state 0 [])\<lparr>last_seen_running := 600000000\<rparr>)))
   \<and> \<not> timeout_deletion_invoked
        (snd (monitor (sample_config ''skyrim.exe'' 600000000) (sample_env 1199999999)
                ((initial_state 0 [])\<lparr>last_seen_running := 600000000\<rparr>)))
   \<and> vas_tick sample_vas_config (sample_vas_env 600000000 False)
        \<lparr> last_active_time = 0, instances_terminated = False \<rparr>
      = Inr (\<lparr> last_active_time = 0, instances_terminated = True \<rparr>,
             [Vas_Get_Instances, Vas_Delete_Instance 123])
   \<and> vas_run sample_vas_config [sample_vas_env 600000000 False, sample_vas_env 1200000000 False]
        \<lparr> last_active_time = 0, instances_terminated = False \<rparr>
      = (fst (vas_run sample_vas_config [sample_vas_env 1200000000 False]
                \<lparr> last_active_time = 0, instances_terminated = True \<rparr>),
         [Vas_Get_Instances, Vas_Delete_Instance 123]
           @ snd (vas_run sample_vas_config [sample_vas_env 1200000000 False]
                    \<lparr> last_active_time = 0, instances_terminated = True \<rparr>))
   \<and> vas_tick sample_vas_config (sample_vas_env 1200000000 False)
        \<lparr> last_active_time = 0, instances_terminated = True \<rparr>
      = Inr (\<lparr> last_active_time = 0, instances_terminated = True \<rparr>, [])
   \<and> vas_tick sample_vas_config
        ((sample_vas_env 1200000000 False)\<lparr>vas_procs := [Proc 7 (Some ''SkyrimVR.exe'')]\<rparr>)
        \<lparr> last_active_time = 0, instances_terminated = True \<rparr>
      = Inr (\<lparr> last_active_time = 1200000000, instances_terminated = False \<rparr>, [])"
proof -
  let ?cfg = "sample_config ''skyrim.exe'' 600000000"
  let ?s = "initial_state 0 []"
  let ?ok = "(sample_env 600000000)\<lparr>response_timeout := Instances [sample_inst 123 ''XTTS''],
                                     delete_ok_timeout := (\<lambda>n. True)\<rparr>"
  let ?no = "(sample_env 600000000)\<lparr>response_timeout := Instances [sample_inst 123 ''XTTS'']\<rparr>"
  let ?v0 = "\<lparr> last_active_time = 0, instances_terminated = False \<rparr>"
  let ?v1 = "\<lparr> last_active_time = 0, instances_terminated = True \<rparr>"
  let ?up = "(sample_vas_env 1200000000 False)\<lparr>vas_procs := [Proc 7 (Some ''SkyrimVR.exe'')]\<rparr>"
  let ?done = "[Get_Instances On_Timeout, Delete_Instance On_Timeout 123,
         Update_Status ''Instances Deleted, Monitoring Stopped'' False None]"
  have f1: "check_for_commands (normcase ?ok) (remove_fails ?ok)
              (command_files ?s @ new_files ?ok) = (None, [], [])"
    by code_simp
  have f2: "handle_command ?cfg ?ok (?s\<lparr>command_files := []\<rparr>) None = (Some ?s, [])"
    by (simp add: handle_command_def initial_state_def)
  have f3: "\<not> paused ?s" "\<not> process_running ?s" by (simp_all add: initial_state_def)
  have f4: "probe_change ?cfg ?ok ?s = Inr (?s, [])" by code_simp
  have f5: "timeout ?cfg \<le> now_check ?ok - last_seen_running ?s"
    by (simp add: sample_env_def sample_config_def initial_state_def)
  have f6: "timeout ?cfg - (now_check ?ok - last_seen_running ?s) = 0"
    by (simp add: sample_env_def sample_config_def initial_state_def)
  have g1: "get_instances (response_timeout ?ok) (instance_identifier ?cfg)
              = [sample_inst 123 ''XTTS'']"
    by code_simp
  have g2: "get_instances (response_timeout ?no) (instance_identifier ?cfg)
              = [sample_inst 123 ''XTTS'']"
    by code_simp
  have g3: "instance_ids [sample_inst 123 ''XTTS''] = [123]" by (simp add: sample_inst_def)
  have g4: "list_ex (delete_ok_timeout ?ok) [123]" by (simp add: sample_env_def)
  have g5: "\<not> list_ex (delete_ok_timeout ?no) [123]" by (simp add: sample_env_def)
  have g6: "now_reset ?no = 600000000" by (simp add: sample_env_def)
  note A = timeout_deletion_outcome
             [where e = ?ok and s = ?s and cfg = ?cfg and command = None and dir = "[]"
                and errors = "[]" and ?s0.0 = ?s and ?ev0.0 = "[]" and ?s1.0 = ?s
                and ?ev1.0 = "[]" and remaining = 0 and s' = ?s and ev = ?done
                and es = "[sample_env 605000000]"]
  from A f1 f2 f3 f4 f5
  have a0: "tick ?cfg ?ok ?s =
           (fst (timeout_reached ?cfg ?ok ?s (timeout ?cfg - (now_check ?ok - last_seen_running ?s))),
            [] @ [] @ snd (timeout_reached ?cfg ?ok ?s
                       (timeout ?cfg - (now_check ?ok - last_seen_running ?s))))"
    by blast
  from A g1 g3 g4
  have a1: "timeout_reached ?cfg ?ok ?s 0 = (Break_Deleted ?s, ?done)"
    by simp
  from a0 a1 f6 have w1: "tick ?cfg ?ok ?s = (Break_Deleted ?s, ?done)" by simp
  from A w1
  have w2: "run ?cfg [?ok, sample_env 605000000] ?s = (Break_Deleted ?s, ?done)"
    by blast
  note B = timeout_deletion_outcome
             [where e = ?no and s = ?s and cfg = ?cfg and remaining = 0]
  from B [where e' = "sample_env 1200000000"] g2 g3 g5 g6
  have w3: "timeout_reached ?cfg ?no ?s 0
     = (Continue (?s\<lparr>last_seen_running := 600000000\<rparr>),
        [Get_Instances On_Timeout, Delete_Instance On_Timeout 123] @ report_remaining 0)"
    by simp
  have n2: "is_process_running (processes_to_monitor ?cfg) (procs (sample_env 1200000000))
              = Inr False"
    by code_simp
  have n3: "is_process_running (processes_to_monitor ?cfg) (procs (sample_env 1199999999))
              = Inr False"
    by code_simp
  have t2: "timeout ?cfg \<le> now_check (sample_env 1200000000) - 600000000"
    by (simp add: sample_env_def sample_config_def)
  have t3: "\<not> timeout ?cfg \<le> now_check (sample_env 1199999999) - 600000000"
    by (simp add: sample_env_def sample_config_def)
  from B [where e' = "sample_env 1200000000", unfolded g6] f3(2) n2 t2
  have w4: "timeout_deletion_invoked
        (snd (monitor ?cfg (sample_env 1200000000) (?s\<lparr>last_seen_running := 600000000\<rparr>)))"
    by blast
  from B [where e' = "sample_env 1199999999", unfolded g6] f3(2) n3 t3
  have w5: "\<not> timeout_deletion_invoked
        (snd (monitor ?cfg (sample_env 1199999999) (?s\<lparr>last_seen_running := 600000000\<rparr>)))"
    by blast
  have p1: "vas_is_process_running (vas_process_names sample_vas_config)
              (vas_procs (sample_vas_env 600000000 False)) = Inr False"
    by code_simp
  have p2: "vas_is_process_running (vas_process_names sample_vas_config)
              (vas_procs (sample_vas_env 1200000000 False)) = Inr False"
    by code_simp
  have p3: "vas_is_process_running (vas_process_names sample_vas_config) (vas_procs ?up)
              = Inr True"
    by code_simp
  have h1: "vas_timeout_minutes sample_vas_config * one_minute
              \<le> vas_now_inactive (sample_vas_env 600000000 False) - last_active_time ?v0"
    by (simp add: sample_vas_config_def sample_vas_env_def one_minute_def)
  have h2: "\<not> instances_terminated ?v0" "instances_terminated ?v1" by simp_all
  have h3: "vas_get_instances (vas_sdk (sample_vas_env 600000000 False))
              (vas_response (sample_vas_env 600000000 False))
              (vas_instance_label sample_vas_config) = [sample_inst 123 ''My XTTS box'']"
    by code_simp
  have h4: "vas_delete_all (vas_delete_ok (sample_vas_env 600000000 False))
              (vas_instance_ids [sample_inst 123 ''My XTTS box''])
            = [Vas_Delete_Instance 123]"
    by (simp add: sample_vas_env_def sample_inst_def truthy_def)
  note V = timeout_deletion_outcome
             [where vcfg = sample_vas_config and ve = "sample_vas_env 600000000 False"
                and vs = ?v0 and vs' = ?v1
                and vev = "[Vas_Get_Instances, Vas_Delete_Instance 123]"
                and ves = "[sample_vas_env 1200000000 False]"]
  from V p1 h1 h2(1) h3 h4
  have w6: "vas_tick sample_vas_config (sample_vas_env 600000000 False) ?v0
      = Inr (?v1, [Vas_Get_Instances, Vas_Delete_Instance 123])"
    by simp
  from V w6
  have w7: "vas_run sample_vas_config
              [sample_vas_env 600000000 False, sample_vas_env 1200000000 False] ?v0
      = (fst (vas_run sample_vas_config [sample_vas_env 1200000000 False] ?v1),
         [Vas_Get_Instances, Vas_Delete_Instance 123]
           @ snd (vas_run sample_vas_config [sample_vas_env 1200000000 False] ?v1))"
    by blast
  from timeout_deletion_outcome
         [where vcfg = sample_vas_config and ve = "sample_vas_env 1200000000 False"
            and vs = ?v1] p2 h2(2)
  have w8: "vas_tick sample_vas_config (sample_vas_env 1200000000 False) ?v1 = Inr (?v1, [])"
    by blast
  from timeout_deletion_outcome [where vcfg = sample_vas_config and ve = ?up and vs = ?v1] p3
  have w9: "vas_tick sample_vas_config ?up ?v1
      = Inr (\<lparr> last_active_time = 1200000000, instances_terminated = False \<rparr>, [])"
    by (simp add: sample_vas_env_def)
  from w1 w2 w3 w4 w5 w6 w7 w8 w9 show ?thesis by blast
qed

end
